theory Spec2Isabelle
  imports Complex_Main
begin

section \<open>Wire types (frontend/src/types/api.ts)\<close>

text \<open>
  \<^verbatim>\<open>export type DocumentType = 'pdf' | 'docx' | 'xlsx' | 'markdown' | 'text' | 'html' | 'epub' | 'unknown';\<close>
  A union of string literals: one constructor per literal, in the order of the source, and
  \<open>DocumentType_wire\<close> gives the literal that travels over the wire.
\<close>

datatype DocumentType = Pdf | Docx | Xlsx | Markdown | Text | Html | Epub | Unknown

fun DocumentType_wire :: "DocumentType \<Rightarrow> string" where
  "DocumentType_wire Pdf = ''pdf''"
| "DocumentType_wire Docx = ''docx''"
| "DocumentType_wire Xlsx = ''xlsx''"
| "DocumentType_wire Markdown = ''markdown''"
| "DocumentType_wire Text = ''text''"
| "DocumentType_wire Html = ''html''"
| "DocumentType_wire Epub = ''epub''"
| "DocumentType_wire Unknown = ''unknown''"

section \<open>Search filters (components/search/SearchFilters.tsx, pages/SearchPage.tsx)\<close>

text \<open>
  \<^verbatim>\<open>const DOCUMENT_TYPES: { value: DocumentType; label: string }[] = [
    { value: 'pdf', label: 'PDF' }, { value: 'docx', label: 'Word' }, ... { value: 'text', label: 'Text' } ];\<close>
  The table of offered checkboxes, as (value, label) pairs in source order.
\<close>

definition DOCUMENT_TYPES :: "(DocumentType \<times> string) list" where
  "DOCUMENT_TYPES =
    [(Pdf, ''PDF''), (Docx, ''Word''), (Xlsx, ''Excel''), (Markdown, ''Markdown''),
     (Html, ''HTML''), (Epub, ''EPUB''), (Text, ''Text'')]"

text \<open>
  \<^verbatim>\<open>const toggleType = (type) => {
    if (selectedTypes.includes(type)) { onTypesChange(selectedTypes.filter(t => t !== type)); }
    else { onTypesChange([...selectedTypes, type]); } };\<close>
  \<open>toggleType selectedTypes type\<close> is the list handed to \<open>onTypesChange\<close>, which in
  SearchPage is the state setter \<open>setSelectedTypes\<close>: the next value of the selection.
\<close>

definition toggleType :: "DocumentType list \<Rightarrow> DocumentType \<Rightarrow> DocumentType list" where
  "toggleType selectedTypes type =
    (if type \<in> set selectedTypes then filter (\<lambda>t. t \<noteq> type) selectedTypes
     else selectedTypes @ [type])"

text \<open>
  A toggle interaction is a click on one of the rendered checkboxes:
  \<^verbatim>\<open>DOCUMENT_TYPES.map(({ value, label }) => <Checkbox ... onCheckedChange={() => toggleType(value)} />)\<close>
  so a click is identified by the position of its checkbox in \<open>DOCUMENT_TYPES\<close>. A position
  with no checkbox has nothing to click and leaves the selection alone.
\<close>

definition click :: "DocumentType list \<Rightarrow> nat \<Rightarrow> DocumentType list" where
  "click selectedTypes i =
    (if i < length DOCUMENT_TYPES then toggleType selectedTypes (fst (DOCUMENT_TYPES ! i))
     else selectedTypes)"

text \<open>
  \<^verbatim>\<open>const [selectedTypes, setSelectedTypes] = useState<DocumentType[]>([]);\<close>
  The selection after a sequence of clicks, starting from the initial state.
\<close>

definition initial_selectedTypes :: "DocumentType list" where
  "initial_selectedTypes = []"

definition clicks :: "nat list \<Rightarrow> DocumentType list" where
  "clicks is = foldl click initial_selectedTypes is"

text \<open>
  \<^verbatim>\<open>export interface SearchQuery { query: string; limit?: number; min_score?: number;
    document_ids?: string[]; document_types?: DocumentType[]; include_embeddings?: boolean; }\<close>
  Optional fields are \<open>option\<close>s (\<open>None\<close> is \<open>undefined\<close>).
\<close>

record SearchQuery =
  query :: string
  limit :: "nat option"
  min_score :: "real option"
  document_ids :: "string list option"
  document_types :: "DocumentType list option"
  include_embeddings :: "bool option"

text \<open>
  \<^verbatim>\<open>searchMutation.mutate({ query, limit: 20,
    document_types: selectedTypes.length > 0 ? selectedTypes : undefined }, ...)\<close>
  The query object that \<open>handleSearch\<close> of SearchPage submits.
\<close>

definition handleSearch :: "DocumentType list \<Rightarrow> string \<Rightarrow> SearchQuery" where
  "handleSearch selectedTypes q =
    \<lparr>query = q, limit = Some 20, min_score = None, document_ids = None,
     document_types = (if length selectedTypes > 0 then Some selectedTypes else None),
     include_embeddings = None\<rparr>"

section \<open>The HTTP client (frontend/src/api/client.ts)\<close>

subsection \<open>JSON values and the JavaScript operators the client applies to them\<close>

text \<open>
  The value that \<^verbatim>\<open>response.json()\<close> resolves to. Objects are association lists
  in key order, with one entry per key, as \<^verbatim>\<open>JSON.parse\<close> leaves them. Numbers are restricted to integers: the client only tests them for
  truthiness and converts them to strings.
\<close>

datatype json = JNull | JBool bool | JNum int | JStr string | JArr "json list"
  | JObj "(string \<times> json) list"

text \<open>\<^verbatim>\<open>Array.prototype.join\<close> on strings.\<close>

fun join :: "string \<Rightarrow> string list \<Rightarrow> string" where
  "join sep [] = []"
| "join sep [x] = x"
| "join sep (x # y # ys) = x @ sep @ join sep (y # ys)"

text \<open>Decimal numerals, as \<^verbatim>\<open>String(n)\<close> prints an integer.\<close>

fun show_nat :: "nat \<Rightarrow> string" where
  "show_nat n =
    (if n < 10 then [''0123456789'' ! n]
     else show_nat (n div 10) @ [''0123456789'' ! (n mod 10)])"

definition show_int :: "int \<Rightarrow> string" where
  "show_int n = (if n < 0 then ''-'' @ show_nat (nat (- n)) else show_nat (nat n))"

text \<open>
  \<^verbatim>\<open>String(v)\<close> on a JSON value: an array prints its elements joined by commas, with
  \<^verbatim>\<open>null\<close> elements printed empty; an object prints as \<^verbatim>\<open>[object Object]\<close>.
\<close>

fun js_String :: "json \<Rightarrow> string" where
  "js_String JNull = ''null''"
| "js_String (JBool b) = (if b then ''true'' else ''false'')"
| "js_String (JNum n) = show_int n"
| "js_String (JStr s) = s"
| "js_String (JArr xs) = join '','' (map (\<lambda>x. if x = JNull then [] else js_String x) xs)"
| "js_String (JObj kvs) = ''[object Object]''"

text \<open>Truthiness, as \<^verbatim>\<open>||\<close> tests it.\<close>

fun truthy :: "json \<Rightarrow> bool" where
  "truthy JNull = False"
| "truthy (JBool b) = b"
| "truthy (JNum n) = (n \<noteq> 0)"
| "truthy (JStr s) = (s \<noteq> [])"
| "truthy (JArr xs) = True"
| "truthy (JObj kvs) = True"

text \<open>
  \<^verbatim>\<open>a || b\<close> on values that may be \<^verbatim>\<open>undefined\<close> (\<open>None\<close>, which is falsy).
\<close>

definition js_or :: "json option \<Rightarrow> json option \<Rightarrow> json option" where
  "js_or a b = (case a of None \<Rightarrow> b | Some v \<Rightarrow> if truthy v then a else b)"

subsection \<open>Errors\<close>

text \<open>
  \<^verbatim>\<open>export class ApiError extends Error {
    constructor(public status: number, public statusText: string, message: string) { super(message); ... } }\<close>
  What a helper can throw: the \<open>ApiError\<close> with its three fields, the \<open>SyntaxError\<close> of
  \<^verbatim>\<open>response.json()\<close> on a body that is not JSON, the \<open>TypeError\<close> of a property read on
  \<^verbatim>\<open>null\<close> or of a \<^verbatim>\<open>fetch\<close> that gets no response, and a plain
  \<^verbatim>\<open>new Error(message)\<close>.
\<close>

datatype exn = ApiError nat string string | SyntaxError | TypeError | JsError string

text \<open>
  The \<^verbatim>\<open>Response\<close> of \<^verbatim>\<open>fetch\<close>, as far as the client reads it:
  \<^verbatim>\<open>response.ok\<close>, \<^verbatim>\<open>response.status\<close>, \<^verbatim>\<open>response.statusText\<close> and what
  \<^verbatim>\<open>response.json()\<close> gives: \<open>None\<close> when the body does not parse and the promise rejects.
\<close>

record Response =
  ok :: bool
  status :: nat
  statusText :: string
  json :: "json option"

text \<open>
  The reads \<^verbatim>\<open>errorData.detail\<close> and \<^verbatim>\<open>errorData.message\<close>: a \<open>TypeError\<close> on
  \<^verbatim>\<open>null\<close>, the field (or \<^verbatim>\<open>undefined\<close>) on an object, \<^verbatim>\<open>undefined\<close> on a boolean,
  number, string or array, none of which has a property of either name.
\<close>

fun get_prop :: "json \<Rightarrow> string \<Rightarrow> exn + json option" where
  "get_prop JNull k = Inl TypeError"
| "get_prop (JObj kvs) k = Inr (map_of kvs k)"
| "get_prop (JBool b) k = Inr None"
| "get_prop (JNum n) k = Inr None"
| "get_prop (JStr s) k = Inr None"
| "get_prop (JArr xs) k = Inr None"

text \<open>
  \<^verbatim>\<open>let message = response.statusText;
  try { const errorData = await response.json();
        message = errorData.detail || errorData.message || message; }
  catch { /* Ignore JSON parse errors */ }\<close>
  The value of \<open>message\<close> after the \<open>try\<close>: every exception inside leaves it as it was.
\<close>

definition error_message :: "Response \<Rightarrow> json option" where
  "error_message response =
    (let message = Some (JStr (statusText response)) in
     case json response of
       None \<Rightarrow> message
     | Some errorData \<Rightarrow>
         (case get_prop errorData ''detail'' of
            Inl e \<Rightarrow> message
          | Inr detail \<Rightarrow>
              (case get_prop errorData ''message'' of
                 Inl e \<Rightarrow> message
               | Inr msg \<Rightarrow> js_or (js_or detail msg) message)))"

text \<open>
  \<^verbatim>\<open>super(message)\<close>: the \<open>Error\<close> constructor stores \<open>String(message)\<close>, and the empty
  string for \<^verbatim>\<open>undefined\<close>.
\<close>

definition Error_message :: "json option \<Rightarrow> string" where
  "Error_message m = (case m of None \<Rightarrow> [] | Some v \<Rightarrow> js_String v)"

text \<open>
  \<^verbatim>\<open>async function handleResponse<T>(response: Response): Promise<T> {
    if (!response.ok) { ...; throw new ApiError(response.status, response.statusText, message); }
    return response.json(); }\<close>
\<close>

definition handleResponse :: "Response \<Rightarrow> exn + json" where
  "handleResponse response =
    (if \<not> ok response then
       Inl (ApiError (status response) (statusText response)
              (Error_message (error_message response)))
     else case json response of None \<Rightarrow> Inl SyntaxError | Some v \<Rightarrow> Inr v)"

subsection \<open>Requests\<close>

text \<open>
  A \<^verbatim>\<open>URL\<close> is its path and its \<^verbatim>\<open>searchParams\<close>, the ordered list of (name, value)
  pairs that \<^verbatim>\<open>append\<close> extends at the end. Percent-encoding by \<^verbatim>\<open>url.toString()\<close>
  is the platform's and is not modelled.
\<close>

record URL =
  pathname :: string
  searchParams :: "(string \<times> string) list"

text \<open>\<^verbatim>\<open>File\<close>: the name and the bytes.\<close>

record File =
  name :: string
  bytes :: string

text \<open>
  \<^verbatim>\<open>FormData\<close> entries, and request bodies. \<open>Stringified v\<close> and \<open>JsonBody v\<close> stand for
  \<^verbatim>\<open>JSON.stringify(v)\<close>.
\<close>

datatype form_value = FileValue File | Stringified json

datatype request_body = JsonBody json | FormData "(string \<times> form_value) list"

record Request =
  "method" :: string
  url :: URL
  headers :: "(string \<times> string) list"
  body :: "request_body option"

text \<open>
  \<^verbatim>\<open>fetch\<close> is the environment: it answers a request with a response, or with none
  (the promise rejects with a \<open>TypeError\<close>, which the helpers let through).
\<close>

type_synonym fetch = "Request \<Rightarrow> Response option"

definition await_fetch :: "fetch \<Rightarrow> Request \<Rightarrow> (Response \<Rightarrow> exn + json) \<Rightarrow> exn + json" where
  "await_fetch fetch req k = (case fetch req of None \<Rightarrow> Inl TypeError | Some response \<Rightarrow> k response)"

definition API_BASE :: string where
  "API_BASE = ''/api/v1''"

text \<open>
  Values of a \<^verbatim>\<open>params\<close> record:
  \<^verbatim>\<open>Record<string, string | number | boolean | undefined>\<close>, and \<^verbatim>\<open>null\<close>, which the
  declared type excludes but the code tests for. Numbers are of any type \<open>'n\<close>; \<open>num_str\<close>
  is \<^verbatim>\<open>String\<close> on them.
\<close>

datatype 'n param_value = PStr string | PNum 'n | PBool bool | PUndefined | PNull

fun String_param :: "('n \<Rightarrow> string) \<Rightarrow> 'n param_value \<Rightarrow> string" where
  "String_param num_str (PStr s) = s"
| "String_param num_str (PNum n) = num_str n"
| "String_param num_str (PBool b) = (if b then ''true'' else ''false'')"
| "String_param num_str PUndefined = ''undefined''"
| "String_param num_str PNull = ''null''"

text \<open>\<^verbatim>\<open>url.searchParams.append(key, value)\<close>\<close>

definition append_param :: "URL \<Rightarrow> string \<Rightarrow> string \<Rightarrow> URL" where
  "append_param u key v = u\<lparr>searchParams := searchParams u @ [(key, v)]\<rparr>"

text \<open>
  \<^verbatim>\<open>const url = new URL(`${API_BASE}${endpoint}`, window.location.origin);
  if (params) { Object.entries(params).forEach(([key, value]) => {
      if (value !== undefined && value !== null) { url.searchParams.append(key, String(value)); } }); }\<close>
  \<open>params\<close> is the list \<^verbatim>\<open>Object.entries(params)\<close>, or \<open>None\<close> when the argument is left
  out. The endpoint is a path, as at every call site, so the new URL has no parameters.
\<close>

definition apiGet_url :: "('n \<Rightarrow> string) \<Rightarrow> string \<Rightarrow> (string \<times> 'n param_value) list option \<Rightarrow> URL" where
  "apiGet_url num_str endpoint params =
    (let u = \<lparr>pathname = API_BASE @ endpoint, searchParams = []\<rparr> in
     case params of
       None \<Rightarrow> u
     | Some entries \<Rightarrow>
         foldl (\<lambda>u (key, v).
                  if v \<noteq> PUndefined \<and> v \<noteq> PNull
                  then append_param u key (String_param num_str v) else u)
               u entries)"

text \<open>
  \<^verbatim>\<open>const response = await fetch(url.toString(), { method: 'GET', headers: { 'Accept': 'application/json' } });
  return handleResponse<T>(response);\<close>
\<close>

definition apiGet_request :: "('n \<Rightarrow> string) \<Rightarrow> string \<Rightarrow> (string \<times> 'n param_value) list option \<Rightarrow> Request" where
  "apiGet_request num_str endpoint params =
    \<lparr>method = ''GET'', url = apiGet_url num_str endpoint params,
     headers = [(''Accept'', ''application/json'')], body = None\<rparr>"

definition apiGet :: "fetch \<Rightarrow> ('n \<Rightarrow> string) \<Rightarrow> string \<Rightarrow> (string \<times> 'n param_value) list option \<Rightarrow> exn + json" where
  "apiGet fetch num_str endpoint params =
    await_fetch fetch (apiGet_request num_str endpoint params) handleResponse"

text \<open>
  \<^verbatim>\<open>fetch(`${API_BASE}${endpoint}`, { method: 'POST', headers: {...},
      body: body ? JSON.stringify(body) : undefined })\<close>
\<close>

definition apiPost :: "fetch \<Rightarrow> string \<Rightarrow> json option \<Rightarrow> exn + json" where
  "apiPost fetch endpoint b =
    await_fetch fetch
      \<lparr>method = ''POST'', url = \<lparr>pathname = API_BASE @ endpoint, searchParams = []\<rparr>,
       headers = [(''Content-Type'', ''application/json''), (''Accept'', ''application/json'')],
       body = (case b of None \<Rightarrow> None | Some v \<Rightarrow> if truthy v then Some (JsonBody v) else None)\<rparr>
      handleResponse"

definition apiDelete :: "fetch \<Rightarrow> string \<Rightarrow> exn + json" where
  "apiDelete fetch endpoint =
    await_fetch fetch
      \<lparr>method = ''DELETE'', url = \<lparr>pathname = API_BASE @ endpoint, searchParams = []\<rparr>,
       headers = [(''Accept'', ''application/json'')], body = None\<rparr>
      handleResponse"

text \<open>
  \<^verbatim>\<open>formData.append('file', file);
  if (metadata) { formData.append('custom_metadata', JSON.stringify(metadata)); }\<close>
  The metadata is an object when it is given, so it is truthy.
\<close>

definition apiUpload :: "fetch \<Rightarrow> string \<Rightarrow> File \<Rightarrow> (string \<times> json) list option \<Rightarrow> exn + json" where
  "apiUpload fetch endpoint file metadata =
    await_fetch fetch
      \<lparr>method = ''POST'', url = \<lparr>pathname = API_BASE @ endpoint, searchParams = []\<rparr>,
       headers = [],
       body = Some (FormData ([(''file'', FileValue file)] @
                (case metadata of None \<Rightarrow> []
                 | Some m \<Rightarrow> [(''custom_metadata'', Stringified (JObj m))])))\<rparr>
      handleResponse"

text \<open>\<^verbatim>\<open>files.forEach(file => { formData.append('files', file); });\<close>\<close>

definition apiUploadMultiple :: "fetch \<Rightarrow> string \<Rightarrow> File list \<Rightarrow> exn + json" where
  "apiUploadMultiple fetch endpoint files =
    await_fetch fetch
      \<lparr>method = ''POST'', url = \<lparr>pathname = API_BASE @ endpoint, searchParams = []\<rparr>,
       headers = [],
       body = Some (FormData (foldl (\<lambda>formData file. formData @ [(''files'', FileValue file)]) [] files))\<rparr>
      handleResponse"

text \<open>
  The environment in which every request is answered with the response \<open>r\<close>.
\<close>

definition respond :: "Response \<Rightarrow> fetch" where
  "respond r = (\<lambda>req. Some r)"

text \<open>
  The message that an \<open>ApiError\<close> is said to carry, written from the fields of the error
  body: the \<open>detail\<close> field when the body is a JSON object that has it with a truthy value,
  else its truthy \<open>message\<close> field, else the status text; the status text too for a body
  that is not a JSON object. It is compared with \<open>error_message\<close> of the code below.
\<close>

definition message_by_fields :: "Response \<Rightarrow> string" where
  "message_by_fields r =
    (case json r of
       Some (JObj kvs) \<Rightarrow>
         (if map_of kvs ''detail'' \<noteq> None \<and> truthy (the (map_of kvs ''detail''))
          then js_String (the (map_of kvs ''detail''))
          else if map_of kvs ''message'' \<noteq> None \<and> truthy (the (map_of kvs ''message''))
          then js_String (the (map_of kvs ''message''))
          else statusText r)
     | _ \<Rightarrow> statusText r)"

text \<open>
  Two responses used as examples: a \<^verbatim>\<open>204 No Content\<close> with an empty body, which does not
  parse as JSON, and a \<^verbatim>\<open>404\<close> whose body is \<^verbatim>\<open>{"detail": "Document not found"}\<close>.
\<close>

definition no_content :: Response where
  "no_content = \<lparr>ok = True, status = 204, statusText = ''No Content'', json = None\<rparr>"

definition not_found :: Response where
  "not_found = \<lparr>ok = False, status = 404, statusText = ''Not Found'',
     json = Some (JObj [(''detail'', JStr ''Document not found'')])\<rparr>"

section \<open>Search requests (frontend/src/api/search.ts)\<close>

text \<open>
  \<^verbatim>\<open>export async function searchSimple(q: string, limit = 10, minScore = 0, documentTypes?: DocumentType[])\<close>
  An argument left out is \<open>None\<close>; \<open>limit\<close> and \<open>minScore\<close> then take their defaults.
  With document types the URL is built by hand and the response is checked in place;
  otherwise the call goes through \<open>apiGet\<close>.
  \<open>searchSimple_request\<close> is the request handed to \<^verbatim>\<open>fetch\<close>.
\<close>

definition searchSimple_request ::
  "('n::{zero,numeral} \<Rightarrow> string) \<Rightarrow> string \<Rightarrow> 'n option \<Rightarrow> 'n option \<Rightarrow> DocumentType list option \<Rightarrow> Request" where
  "searchSimple_request num_str q limit_arg minScore_arg documentTypes =
    (let limit = (case limit_arg of None \<Rightarrow> 10 | Some l \<Rightarrow> l);
         minScore = (case minScore_arg of None \<Rightarrow> 0 | Some m \<Rightarrow> m);
         params = [(''q'', PStr q), (''limit'', PNum limit), (''min_score'', PNum minScore)]
     in
     if documentTypes \<noteq> None \<and> length (the documentTypes) > 0 then
       (let u0 = \<lparr>pathname = ''/api/v1/search'', searchParams = []\<rparr>;
            u1 = append_param u0 ''q'' q;
            u2 = append_param u1 ''limit'' (num_str limit);
            u3 = append_param u2 ''min_score'' (num_str minScore);
            u4 = foldl (\<lambda>u type. append_param u ''document_type'' (DocumentType_wire type))
                   u3 (the documentTypes)
        in \<lparr>method = ''GET'', url = u4, headers = [(''Accept'', ''application/json'')],
            body = None\<rparr>)
     else apiGet_request num_str ''/search'' (Some params))"

definition searchSimple ::
  "fetch \<Rightarrow> ('n::{zero,numeral} \<Rightarrow> string) \<Rightarrow> string \<Rightarrow> 'n option \<Rightarrow> 'n option \<Rightarrow> DocumentType list option \<Rightarrow> exn + json" where
  "searchSimple fetch num_str q limit_arg minScore_arg documentTypes =
    await_fetch fetch (searchSimple_request num_str q limit_arg minScore_arg documentTypes)
      (if documentTypes \<noteq> None \<and> length (the documentTypes) > 0 then
         (\<lambda>response.
            if \<not> ok response then Inl (JsError (''Search failed: '' @ statusText response))
            else case json response of None \<Rightarrow> Inl SyntaxError | Some v \<Rightarrow> Inr v)
       else handleResponse)"

section \<open>Batch upload (components/documents/UploadZone in DocumentCard.tsx)\<close>

text \<open>
  \<^verbatim>\<open>export interface IngestResponse { document_id: string; filename: string;
    document_type: DocumentType; chunks_created: number; status: string; errors: string[]; }\<close>
  The code reads \<open>errors\<close> through \<^verbatim>\<open>?.\<close>, so a response without the field is covered:
  \<open>None\<close>.
\<close>

record IngestResponse =
  document_id :: string
  filename :: string
  document_type :: DocumentType
  chunks_created :: nat
  status :: string
  errors :: "string list option"

text \<open>
  \<^verbatim>\<open>interface UploadResult { file: File;
    status: 'pending' | 'uploading' | 'success' | 'error'; result?: IngestResponse; error?: string; }\<close>
\<close>

datatype upload_status = Pending | Uploading | Success | Error

record UploadResult =
  "file" :: File
  status :: upload_status
  result :: "IngestResponse option"
  error :: "string option"

text \<open>
  \<^verbatim>\<open>prev.map(f => f.status === 'pending' ? { ...f, status: 'uploading' } : f)\<close>
\<close>

definition mark_uploading :: "UploadResult \<Rightarrow> UploadResult" where
  "mark_uploading f = (if status f = Pending then f\<lparr>status := Uploading\<rparr> else f)"

text \<open>
  \<^verbatim>\<open>prev.map(f => {
    if (f.status !== 'uploading') return f;
    const result = results.find(r => r.filename === f.file.name);
    if (result) { return { ...f, status: result.status === 'success' ? 'success' : 'error',
                           result, error: result.errors?.join(', ') }; }
    return { ...f, status: 'error', error: 'Unknown error' }; })\<close>
  \<open>find\<close> gives the first response of the list with the file's name.
\<close>

definition apply_results :: "IngestResponse list \<Rightarrow> UploadResult \<Rightarrow> UploadResult" where
  "apply_results results f =
    (if status f \<noteq> Uploading then f
     else case find (\<lambda>r. filename r = name (file f)) results of
       Some r \<Rightarrow>
         f\<lparr>status := (if IngestResponse.status r = ''success'' then Success else Error),
           result := Some r,
           error := map_option (join '', '') (errors r)\<rparr>
     | None \<Rightarrow> f\<lparr>status := Error, error := Some ''Unknown error''\<rparr>)"

text \<open>
  \<^verbatim>\<open>prev.map(f => f.status === 'uploading' ? { ...f, status: 'error', error: String(error) } : f)\<close>
\<close>

definition apply_failure :: "string \<Rightarrow> UploadResult \<Rightarrow> UploadResult" where
  "apply_failure e f = (if status f = Uploading then f\<lparr>status := Error, error := Some e\<rparr> else f)"

text \<open>
  \<^verbatim>\<open>const handleUpload = async () => {
    const pendingFiles = files.filter(f => f.status === 'pending');
    if (pendingFiles.length === 0) return;
    setFiles(prev => prev.map(...uploading...));
    try { const results = await uploadMutation.mutateAsync(pendingFiles.map(f => f.file));
          setFiles(prev => prev.map(...results...)); }
    catch (error) { setFiles(prev => prev.map(...error...)); } };\<close>
  The state is the list \<open>files\<close>; the result is the state after the handler, with no other
  event in between. \<open>mutateAsync\<close> is the upload: it resolves with the list of responses
  (\<open>Inr\<close>) or rejects with an error, given as its \<open>String(error)\<close> (\<open>Inl\<close>).
\<close>

definition handleUpload ::
  "(File list \<Rightarrow> string + IngestResponse list) \<Rightarrow> UploadResult list \<Rightarrow> UploadResult list" where
  "handleUpload mutateAsync files =
    (let pendingFiles = filter (\<lambda>f. status f = Pending) files in
     if length pendingFiles = 0 then files
     else
       let uploading = map mark_uploading files in
       case mutateAsync (map file pendingFiles) of
         Inr results \<Rightarrow> map (apply_results results) uploading
       | Inl e \<Rightarrow> map (apply_failure e) uploading)"

text \<open>The upload that resolves with the given responses.\<close>

definition resolves_with :: "IngestResponse list \<Rightarrow> File list \<Rightarrow> string + IngestResponse list" where
  "resolves_with results fs = Inr results"

text \<open>
  An example: two pending files of different content that share the name \<^verbatim>\<open>a.txt\<close>, and
  two batches of responses, one response per file in order. In both the response for the
  second file is the same success; the response for the first file is a failure in
  \<open>first_fails\<close> and a success in \<open>both_succeed\<close>.
\<close>

definition same_name_files :: "UploadResult list" where
  "same_name_files =
    [\<lparr>file = \<lparr>name = ''a.txt'', bytes = ''x''\<rparr>, status = Pending, result = None, error = None\<rparr>,
     \<lparr>file = \<lparr>name = ''a.txt'', bytes = ''y''\<rparr>, status = Pending, result = None, error = None\<rparr>]"

definition response_ok :: "string \<Rightarrow> string \<Rightarrow> IngestResponse" where
  "response_ok d n =
    \<lparr>IngestResponse.document_id = d, filename = n, document_type = Text, chunks_created = 1,
     IngestResponse.status = ''success'', errors = Some []\<rparr>"

definition response_failed :: "string \<Rightarrow> string \<Rightarrow> IngestResponse" where
  "response_failed d n =
    \<lparr>IngestResponse.document_id = d, filename = n, document_type = Unknown, chunks_created = 0,
     IngestResponse.status = ''error'', errors = Some [''corrupt file'']\<rparr>"

definition first_fails :: "IngestResponse list" where
  "first_fails = [response_failed ''d1'' ''a.txt'', response_ok ''d2'' ''a.txt'']"

definition both_succeed :: "IngestResponse list" where
  "both_succeed = [response_ok ''d1'' ''a.txt'', response_ok ''d2'' ''a.txt'']"

text \<open>Two pending files with different names, for the examples below.\<close>

definition two_files :: "UploadResult list" where
  "two_files =
    [\<lparr>file = \<lparr>name = ''a.txt'', bytes = ''x''\<rparr>, status = Pending, result = None, error = None\<rparr>,
     \<lparr>file = \<lparr>name = ''b.txt'', bytes = ''y''\<rparr>, status = Pending, result = None, error = None\<rparr>]"

text \<open>Two batches of responses for them, one response per file.\<close>

definition a_fails_b_succeeds :: "IngestResponse list" where
  "a_fails_b_succeeds = [response_failed ''d1'' ''a.txt'', response_ok ''d2'' ''b.txt'']"

definition a_and_b_succeed :: "IngestResponse list" where
  "a_and_b_succeed = [response_ok ''d1'' ''a.txt'', response_ok ''d2'' ''b.txt'']"

section \<open>Wiki types (frontend/src/types/api.ts) and the wiki page\<close>

text \<open>
  \<^verbatim>\<open>export interface WikiSource { chunk_id: string; document_id: string;
    document_title: string | null; source_path: string; page_number: number | null;
    section: string | null; relevance_score: number; excerpt: string; }\<close>
  A field that may be \<^verbatim>\<open>null\<close> is an \<open>option\<close>.
\<close>

record WikiSource =
  chunk_id :: string
  document_id :: string
  document_title :: "string option"
  source_path :: string
  page_number :: "nat option"
  "section" :: "string option"
  relevance_score :: real
  excerpt :: string

text \<open>
  \<^verbatim>\<open>export interface WikiSection { heading: string; content: string; sources: WikiSource[];
    confidence: number; subsections: WikiSection[]; }\<close>
  The interface is recursive, so it is a datatype with the fields as selectors.
\<close>

datatype WikiSection =
  WikiSection (heading: string) (content: string) (sources: "WikiSource list")
    (confidence: real) (subsections: "WikiSection list")

text \<open>
  \<^verbatim>\<open>export interface WikiEntry { entry_id: string; title: string; summary: string;
    sections: WikiSection[]; all_sources: WikiSource[]; generated_at: string; query: string; }\<close>
\<close>

record WikiEntry =
  entry_id :: string
  title :: string
  summary :: string
  sections :: "WikiSection list"
  all_sources :: "WikiSource list"
  generated_at :: string
  query :: string

text \<open>
  \<^verbatim>\<open>export interface WikiGenerateRequest { query: string; max_sources?: number;
    output_format?: 'markdown' | 'html' | 'json' | 'text'; include_sources?: boolean; }\<close>
  The format is a union of four string literals; \<open>output_format_wire\<close> is the literal.
  The same union is the type of the \<open>format\<close> argument of \<open>useGenerateWikiSimple\<close>
  (hooks/useWiki.ts), whose default is \<open>html\<close>.
\<close>

datatype output_format = FormatMarkdown | FormatHtml | FormatJson | FormatText

fun output_format_wire :: "output_format \<Rightarrow> string" where
  "output_format_wire FormatMarkdown = ''markdown''"
| "output_format_wire FormatHtml = ''html''"
| "output_format_wire FormatJson = ''json''"
| "output_format_wire FormatText = ''text''"

record WikiGenerateRequest =
  query :: string
  max_sources :: "nat option"
  output_format :: "output_format option"
  include_sources :: "bool option"

text \<open>
  \<^verbatim>\<open>export interface WikiGenerateResponse { entry: WikiEntry; content: string; format: string; }\<close>
\<close>

record WikiGenerateResponse =
  entry :: WikiEntry
  content :: string
  format :: string

text \<open>
  \<^verbatim>\<open>export function useGenerateWikiSimple(query: string | null, maxSources = 10,
    format: 'markdown' | 'html' | 'json' | 'text' = 'html', includeSources = true)\<close>
  The format that the hook passes on: the argument, or the default when it is left out.
\<close>

definition useGenerateWikiSimple_format :: "output_format option \<Rightarrow> output_format" where
  "useGenerateWikiSimple_format format_arg =
    (case format_arg of None \<Rightarrow> FormatHtml | Some f \<Rightarrow> f)"

text \<open>
  \<^verbatim>\<open>const handleGenerate = (query: string, maxSources: number, includeSources: boolean) => {
    generateMutation.mutate({ query, max_sources: maxSources, output_format: 'html',
                              include_sources: includeSources }, ...) };\<close>
  The request that the wiki page submits.
\<close>

definition handleGenerate :: "string \<Rightarrow> nat \<Rightarrow> bool \<Rightarrow> WikiGenerateRequest" where
  "handleGenerate q maxSources includeSources =
    \<lparr>query = q, max_sources = Some maxSources, output_format = Some FormatHtml,
     include_sources = Some includeSources\<rparr>"

text \<open>The format names a client request can carry, from the union above.\<close>

definition client_formats :: "string list" where
  "client_formats = map output_format_wire [FormatMarkdown, FormatHtml, FormatJson, FormatText]"

text \<open>
  \<^verbatim>\<open><div className="prose-wiki" dangerouslySetInnerHTML={{ __html: content }} />\<close>
  (components/wiki/WikiContent.tsx, with \<^verbatim>\<open>const { entry, content } = data\<close>): the markup that
  the preview hands to the document, which is the \<open>content\<close> of the response as it is.
\<close>

definition preview_innerHTML :: "WikiGenerateResponse \<Rightarrow> string" where
  "preview_innerHTML data = content data"

section \<open>The renderer\<close>

text \<open>
  Modelled from the spec: the error kinds of section 7, which the backend raises and the
  sources here do not declare.
\<close>

datatype error_kind = NotFound | InvalidArgument | Unavailable | Conflict

text \<open>
  Modelled from the spec: the renderer \<^verbatim>\<open>render(entry, format)\<close> belongs to the backend,
  which is not among the sources. Section 4.5: "Unsupported format fails with
  InvalidArgument". \<open>render_format supported fmt\<close> is the check of the requested format
  against the list of supported formats, which is a parameter; it hands a supported format on
  to the rendering.
\<close>

definition render_format :: "string list \<Rightarrow> string \<Rightarrow> error_kind + string" where
  "render_format supported fmt = (if fmt \<in> set supported then Inr fmt else Inl InvalidArgument)"

text \<open>
  Modelled from the spec: the formats that section 4.5 lists for the renderer, which is not
  among the sources: format \<open>\<in>\<close> {markdown, html, text, structured}.
\<close>

definition spec_formats :: "string list" where
  "spec_formats = [''markdown'', ''html'', ''text'', ''structured'']"

text \<open>
  Modelled from the spec: HTML escaping of text. Section 4.5 asks that HTML output escape
  all source text and does not say how; the model replaces the five characters that are
  markup in HTML text and attribute values by their entities.
\<close>

fun escape_char :: "char \<Rightarrow> string" where
  "escape_char c =
    (if c = CHR ''&'' then ''&amp;''
     else if c = CHR ''<'' then ''&lt;''
     else if c = CHR ''>'' then ''&gt;''
     else if c = CHR 0x22 then ''&quot;''
     else if c = CHR 0x27 then ''&#x27;''
     else [c])"

text \<open>
  Modelled from the spec: the escaping of a string by the missing renderer, character by
  character.
\<close>

definition escape_html :: "string \<Rightarrow> string" where
  "escape_html s = concat (map escape_char s)"

text \<open>
  Modelled from the spec: the tags of the HTML rendering of the missing renderer. The spec
  fixes neither the tags nor the layout of the output; the model uses this fixed set.
\<close>

definition renderer_tags :: "string list" where
  "renderer_tags =
    [''<article>'', ''</article>'', ''<h1>'', ''</h1>'', ''<h2>'', ''</h2>'', ''<p>'', ''</p>'',
     ''<section>'', ''</section>'', ''<ul>'', ''</ul>'', ''<li>'', ''</li>'', ''<cite>'', ''</cite>'']"

text \<open>
  Modelled from the spec: the rendering of one citation by the missing renderer: the document
  title (the source path when there is none), the section label and the excerpt, each
  escaped (section 4.5: HTML output must escape all source text).
\<close>

definition render_source_html :: "WikiSource \<Rightarrow> string" where
  "render_source_html s =
    ''<li><cite>''
    @ escape_html (case document_title s of Some t \<Rightarrow> t | None \<Rightarrow> source_path s)
    @ ''</cite>''
    @ (case section s of Some l \<Rightarrow> escape_html l | None \<Rightarrow> [])
    @ ''<p>'' @ escape_html (excerpt s) @ ''</p></li>''"

text \<open>
  Modelled from the spec: the citation list of the missing renderer. Section 4.4, step 7:
  \<open>include_sources = false\<close> suppresses the citation lists of the rendered output.
\<close>

definition render_sources_html :: "bool \<Rightarrow> WikiSource list \<Rightarrow> string" where
  "render_sources_html include_srcs srcs =
    (if include_srcs then ''<ul>'' @ concat (map render_source_html srcs) @ ''</ul>'' else [])"

text \<open>
  Modelled from the spec: the rendering of a section by the missing renderer: the heading and
  the content, escaped, the citations and then the subsections, recursively.
\<close>

fun render_section_html :: "bool \<Rightarrow> WikiSection \<Rightarrow> string" where
  "render_section_html include_srcs (WikiSection h c srcs conf subs) =
    ''<section><h2>'' @ escape_html h @ ''</h2><p>'' @ escape_html c @ ''</p>''
    @ render_sources_html include_srcs srcs
    @ concat (map (render_section_html include_srcs) subs)
    @ ''</section>''"

text \<open>
  Modelled from the spec: \<^verbatim>\<open>render(entry, 'html')\<close> of the missing renderer: the title and
  the summary, escaped, the sections in order and the citations of the entry. Every string
  taken from the entry goes through \<open>escape_html\<close>.
\<close>

definition render_html :: "bool \<Rightarrow> WikiEntry \<Rightarrow> string" where
  "render_html include_srcs e =
    ''<article><h1>'' @ escape_html (title e) @ ''</h1><p>'' @ escape_html (summary e) @ ''</p>''
    @ concat (map (render_section_html include_srcs) (sections e))
    @ render_sources_html include_srcs (all_sources e)
    @ ''</article>''"

text \<open>
  The tags of a piece of markup, as the document reads them: a tag starts at \<open><\<close> and ends at
  the next \<open>></\<close>. \<open>scan_tags None\<close> reads text, \<open>scan_tags (Some t)\<close> is inside a tag, of which
  \<open>t\<close> has been read; a tag still open at the end is returned as it stands.
\<close>

fun scan_tags :: "string option \<Rightarrow> string \<Rightarrow> string list" where
  "scan_tags None [] = []"
| "scan_tags (Some t) [] = [t]"
| "scan_tags None (c # cs) =
    (if c = CHR ''<'' then scan_tags (Some [c]) cs else scan_tags None cs)"
| "scan_tags (Some t) (c # cs) =
    (if c = CHR ''>'' then (t @ [c]) # scan_tags None cs else scan_tags (Some (t @ [c])) cs)"

definition tags_of :: "string \<Rightarrow> string list" where
  "tags_of s = scan_tags None s"

text \<open>
  A piece of markup is \<open>closed_markup\<close> over a set of tags when, wherever it stands in a text, it
  contributes tags of that set only and leaves the reader outside a tag.
\<close>

definition closed_markup :: "string set \<Rightarrow> string \<Rightarrow> bool" where
  "closed_markup T x \<longleftrightarrow> (\<exists>ts. set ts \<subseteq> T \<and> (\<forall>ys. scan_tags None (x @ ys) = ts @ scan_tags None ys))"

text \<open>An entry whose strings carry markup of their own, as an example.\<close>

definition script_source :: WikiSource where
  "script_source =
    \<lparr>chunk_id = ''c1'', document_id = ''d1'', document_title = Some ''A & B'',
     source_path = ''/docs/a.html'', page_number = None, section = Some ''<b>Intro</b>'',
     relevance_score = 1, excerpt = ''<script>alert(1)</script>''\<rparr>"

definition script_entry :: WikiEntry where
  "script_entry =
    \<lparr>entry_id = ''e1'', title = ''<script>'', summary = ''1 < 2'',
     sections = [WikiSection ''<h1>Rivers</h1>'' ''<img src=x onerror=alert(1)>''
                   [script_source] 1 []],
     all_sources = [script_source], generated_at = ''2024-01-01'',
     WikiEntry.query = ''rivers''\<rparr>"

section \<open>Properties\<close>

subsection \<open>The document type enum\<close>

lemma DocumentType_UNIV: "UNIV = {Pdf, Docx, Xlsx, Markdown, Text, Html, Epub, Unknown}"
proof -
  have "t \<in> {Pdf, Docx, Xlsx, Markdown, Text, Html, Epub, Unknown}" for t
    by (cases t) simp_all
  then show ?thesis by blast
qed

text \<open>
  C6. The document type enum has exactly eight values on the wire: the wire names of the
  values of \<open>DocumentType\<close> are pdf, docx, xlsx, markdown, html, epub, text and unknown, no
  other string is the name of a document type, all eight are names of some value, and the
  eight names are pairwise different.
\<close>

theorem DocumentType_wire_exactly_eight:
  "range DocumentType_wire =
     {''pdf'', ''docx'', ''xlsx'', ''markdown'', ''html'', ''epub'', ''text'', ''unknown''}
   \<and> inj DocumentType_wire
   \<and> card (range DocumentType_wire) = 8"
proof -
  have r: "range DocumentType_wire =
     {''pdf'', ''docx'', ''xlsx'', ''markdown'', ''html'', ''epub'', ''text'', ''unknown''}"
    unfolding DocumentType_UNIV by auto
  have i: "inj DocumentType_wire"
  proof (rule injI)
    fix x y assume "DocumentType_wire x = DocumentType_wire y"
    then show "x = y" by (cases x; cases y) simp_all
  qed
  have "card (range DocumentType_wire) = 8"
    unfolding r by simp
  with r i show ?thesis by blast
qed

subsection \<open>Toggling a filter\<close>

lemma set_toggleType:
  "set (toggleType s t) = (if t \<in> set s then set s - {t} else insert t (set s))"
  by (auto simp: toggleType_def)

text \<open>
  C8. For every selection \<open>s\<close> and type \<open>t\<close>, \<open>toggleType\<close> flips exactly the membership of
  \<open>t\<close>: the new list contains \<open>t\<close> iff \<open>s\<close> did not, every other type keeps its membership,
  and toggling \<open>t\<close> twice gives back the original membership set.
\<close>

theorem toggleType_flips_membership:
  "(t \<in> set (toggleType s t) \<longleftrightarrow> t \<notin> set s)
   \<and> (\<forall>u. u \<noteq> t \<longrightarrow> (u \<in> set (toggleType s t) \<longleftrightarrow> u \<in> set s))
   \<and> set (toggleType (toggleType s t) t) = set s"
  by (auto simp: set_toggleType)

theorem toggleType_flips_membership_witness:
  "(Pdf \<in> set (toggleType [Html, Pdf] Pdf) \<longleftrightarrow> Pdf \<notin> set [Html, Pdf])
   \<and> (Html \<in> set (toggleType [Html, Pdf] Pdf) \<longleftrightarrow> Html \<in> set [Html, Pdf])
   \<and> set (toggleType (toggleType [Html, Pdf] Pdf) Pdf) = set [Html, Pdf]"
  using toggleType_flips_membership [of Pdf "[Html, Pdf]"] by simp

subsection \<open>The selection reachable through the checkboxes\<close>

lemma offered_types:
  "fst ` set DOCUMENT_TYPES = {Pdf, Docx, Xlsx, Markdown, Html, Epub, Text}"
  by (simp add: DOCUMENT_TYPES_def)

lemma click_subset:
  assumes "set s \<subseteq> fst ` set DOCUMENT_TYPES"
  shows "set (click s i) \<subseteq> fst ` set DOCUMENT_TYPES"
proof (cases "i < length DOCUMENT_TYPES")
  case True
  then have "fst (DOCUMENT_TYPES ! i) \<in> fst ` set DOCUMENT_TYPES"
    by (metis nth_mem image_eqI)
  with assms True show ?thesis
    by (auto simp: click_def set_toggleType)
next
  case False
  with assms show ?thesis by (simp add: click_def)
qed

lemma foldl_click_subset:
  "set s \<subseteq> fst ` set DOCUMENT_TYPES \<Longrightarrow> set (foldl click s is) \<subseteq> fst ` set DOCUMENT_TYPES"
  by (induction "is" arbitrary: s) (simp_all add: click_subset)

text \<open>
  C9. Starting from the empty selection of SearchPage, every sequence of checkbox clicks
  gives a selection inside the seven offered types pdf, docx, xlsx, markdown, html, epub,
  text; \<open>unknown\<close> is never selected, and so it is never in the \<open>document_types\<close> filter of a
  query that \<open>handleSearch\<close> submits, although it is a value of the wire enum.
\<close>

theorem clicks_within_offered_types:
  "set (clicks is) \<subseteq> {Pdf, Docx, Xlsx, Markdown, Html, Epub, Text}
   \<and> Unknown \<notin> set (clicks is)
   \<and> (\<forall>ts. document_types (handleSearch (clicks is) q) = Some ts \<longrightarrow> Unknown \<notin> set ts)
   \<and> DocumentType_wire Unknown = ''unknown''"
proof -
  have "set initial_selectedTypes \<subseteq> fst ` set DOCUMENT_TYPES"
    by (simp add: initial_selectedTypes_def)
  then have sub: "set (clicks is) \<subseteq> {Pdf, Docx, Xlsx, Markdown, Html, Epub, Text}"
    unfolding clicks_def using foldl_click_subset offered_types by metis
  then have un: "Unknown \<notin> set (clicks is)" by auto
  have "\<forall>ts. document_types (handleSearch (clicks is) q) = Some ts \<longrightarrow> Unknown \<notin> set ts"
    using un by (auto simp: handleSearch_def split: if_splits)
  with sub un show ?thesis by simp
qed

theorem clicks_within_offered_types_witness:
  "clicks [0, 4, 0, 6] = [Html, Text]
   \<and> document_types (handleSearch (clicks [0, 4, 0, 6]) ''rivers'') = Some [Html, Text]
   \<and> Unknown \<notin> set [Html, Text]"
proof -
  have c: "clicks [0, 4, 0, 6] = [Html, Text]"
    by (simp add: clicks_def click_def toggleType_def DOCUMENT_TYPES_def initial_selectedTypes_def)
  have d: "document_types (handleSearch (clicks [0, 4, 0, 6]) ''rivers'') = Some [Html, Text]"
    by (simp add: c handleSearch_def)
  from clicks_within_offered_types [of "[0, 4, 0, 6]" "''rivers''"] d
  have "Unknown \<notin> set [Html, Text]" by simp
  with c d show ?thesis by simp
qed

subsection \<open>Query parameters of \<open>apiGet\<close>\<close>

lemma foldl_append_params:
  "searchParams (foldl (\<lambda>u (key, v).
      if v \<noteq> PUndefined \<and> v \<noteq> PNull
      then append_param u key (String_param num_str v) else u) u entries)
   = searchParams u @ map (\<lambda>(key, v). (key, String_param num_str v))
                        (filter (\<lambda>(key, v). v \<noteq> PUndefined \<and> v \<noteq> PNull) entries)"
  by (induction entries arbitrary: u) (auto simp: append_param_def)

lemma apiGet_url_params:
  "searchParams (apiGet_url num_str endpoint (Some entries))
   = map (\<lambda>(key, v). (key, String_param num_str v))
         (filter (\<lambda>(key, v). v \<noteq> PUndefined \<and> v \<noteq> PNull) entries)"
  by (simp add: apiGet_url_def foldl_append_params)

lemma defined_keys:
  "fst ` set (map (\<lambda>(key, v). (key, f v)) (filter (\<lambda>(key, v). P v) entries))
   = {key. \<exists>v. (key, v) \<in> set entries \<and> P v}"
  by (induction entries) auto

lemma defined_pairs:
  "set (map (\<lambda>(key, v). (key, f v)) (filter (\<lambda>(key, v). P v) entries))
   = {(key, f v) | key v. (key, v) \<in> set entries \<and> P v}"
  by (induction entries) auto


subsection \<open>Query parameters of \<open>searchSimple\<close>\<close>

lemma foldl_append_types:
  "foldl (\<lambda>u type. append_param u ''document_type'' (DocumentType_wire type)) u ts
   = u\<lparr>searchParams := searchParams u @ map (\<lambda>t. (''document_type'', DocumentType_wire t)) ts\<rparr>"
  by (induction ts arbitrary: u) (simp_all add: append_param_def)

lemma searchSimple_request_types:
  assumes "ts \<noteq> []"
  shows "searchSimple_request num_str q limit_arg minScore_arg (Some ts) =
     \<lparr>method = ''GET'',
      url = \<lparr>pathname = ''/api/v1/search'',
             searchParams =
               [(''q'', q),
                (''limit'', num_str (case limit_arg of None \<Rightarrow> 10 | Some l \<Rightarrow> l)),
                (''min_score'', num_str (case minScore_arg of None \<Rightarrow> 0 | Some m \<Rightarrow> m))]
               @ map (\<lambda>t. (''document_type'', DocumentType_wire t)) ts\<rparr>,
      headers = [(''Accept'', ''application/json'')], body = None\<rparr>"
  using assms unfolding searchSimple_request_def Let_def
  by (simp add: foldl_append_types) (simp add: append_param_def)

lemma searchSimple_request_untyped:
  assumes "documentTypes = None \<or> documentTypes = Some []"
  shows "searchSimple_request num_str q limit_arg minScore_arg documentTypes =
     \<lparr>method = ''GET'',
      url = \<lparr>pathname = ''/api/v1/search'',
             searchParams =
               [(''q'', q),
                (''limit'', num_str (case limit_arg of None \<Rightarrow> 10 | Some l \<Rightarrow> l)),
                (''min_score'', num_str (case minScore_arg of None \<Rightarrow> 0 | Some m \<Rightarrow> m))]\<rparr>,
      headers = [(''Accept'', ''application/json'')], body = None\<rparr>"
proof -
  have c: "\<not> (documentTypes \<noteq> None \<and> length (the documentTypes) > 0)"
    using assms by auto
  show ?thesis
    unfolding searchSimple_request_def Let_def if_not_P [OF c]
    by (simp add: apiGet_request_def apiGet_url_def append_param_def API_BASE_def)
qed

lemma filter_document_type:
  "filter (\<lambda>(k, v). k = ''document_type'') (map (\<lambda>t. (''document_type'', f t)) ts)
   = map (\<lambda>t. (''document_type'', f t)) ts"
  by (induction ts) simp_all


subsection \<open>Responses and errors of the helpers\<close>

lemma helpers_handleResponse:
  "apiGet (respond r) num_str endpoint params = handleResponse r"
  "apiPost (respond r) endpoint b = handleResponse r"
  "apiDelete (respond r) endpoint = handleResponse r"
  "apiUpload (respond r) endpoint f metadata = handleResponse r"
  "apiUploadMultiple (respond r) endpoint files = handleResponse r"
  by (simp_all add: apiGet_def apiPost_def apiDelete_def apiUpload_def apiUploadMultiple_def
        await_fetch_def respond_def)

lemma handleResponse_Inr: "handleResponse r = Inr v \<longleftrightarrow> ok r \<and> json r = Some v"
  by (auto simp: handleResponse_def split: option.splits)

lemma Error_message_statusText: "Error_message (Some (JStr s)) = s"
  by (simp add: Error_message_def)

lemma error_message_obj:
  "json r = Some (JObj kvs) \<Longrightarrow>
   Error_message (error_message r) =
     (if map_of kvs ''detail'' \<noteq> None \<and> truthy (the (map_of kvs ''detail''))
      then js_String (the (map_of kvs ''detail''))
      else if map_of kvs ''message'' \<noteq> None \<and> truthy (the (map_of kvs ''message''))
      then js_String (the (map_of kvs ''message''))
      else statusText r)"
  by (cases "map_of kvs ''detail''"; cases "map_of kvs ''message''")
     (simp_all add: error_message_def js_or_def Error_message_def)

lemma error_message_fields: "Error_message (error_message r) = message_by_fields r"
proof (cases "json r")
  case None
  then show ?thesis by (simp add: error_message_def message_by_fields_def Error_message_def)
next
  case (Some errorData)
  show ?thesis
  proof (cases errorData)
    case (JObj kvs)
    with Some have j: "json r = Some (JObj kvs)" by simp
    show ?thesis using error_message_obj [OF j] by (simp add: message_by_fields_def j)
  qed (simp_all add: Some error_message_def message_by_fields_def Error_message_def js_or_def)
qed




subsection \<open>Status of the files of a batch upload\<close>

lemma find_filter: "find P (filter P xs) = find P xs"
  by (induction xs) simp_all

lemma find_filter_eq:
  "filter P xs = filter P ys \<Longrightarrow> find P xs = find P ys"
  by (metis find_filter)

lemma apply_results_cong:
  assumes "filter (\<lambda>r. filename r = name (file f)) results'
         = filter (\<lambda>r. filename r = name (file f)) results"
  shows "apply_results results' f = apply_results results f"
  using find_filter_eq [OF assms] by (simp add: apply_results_def)

lemma handleUpload_resolved:
  assumes "mutateAsync (map file (filter (\<lambda>f. status f = Pending) files)) = Inr results"
    and "i < length files" and "status (files ! i) = Pending"
  shows "handleUpload mutateAsync files = map (apply_results results \<circ> mark_uploading) files"
proof -
  have "files ! i \<in> set (filter (\<lambda>f. status f = Pending) files)"
    using assms(2,3) by simp
  then have "length (filter (\<lambda>f. status f = Pending) files) \<noteq> 0"
    by (metis length_0_conv empty_iff empty_set)
  then show ?thesis
    using assms(1) by (simp add: handleUpload_def Let_def)
qed

lemma apply_results_pending:
  assumes "status f = Pending"
  shows "apply_results results (mark_uploading f) =
    (case find (\<lambda>r. filename r = name (file f)) results of
       Some r \<Rightarrow>
         f\<lparr>status := (if IngestResponse.status r = ''success'' then Success else Error),
           result := Some r, error := map_option (join '', '') (errors r)\<rparr>
     | None \<Rightarrow> f\<lparr>status := Error, error := Some ''Unknown error''\<rparr>)"
  using assms by (simp add: apply_results_def mark_uploading_def split: option.splits)




subsection \<open>The fields of a citation\<close>

text \<open>
  C7. A \<open>WikiSource\<close> carries exactly the fields \<open>chunk_id\<close>, \<open>document_id\<close>,
  \<open>document_title\<close>, \<open>source_path\<close>, \<open>page_number\<close>, \<open>section\<close>, \<open>relevance_score\<close> and
  \<open>excerpt\<close>, the attributes that the specification lists for it: every value of the type
  is the record of these eight fields, and two values are equal exactly when they agree on
  all eight, so there is no other field.
\<close>

theorem WikiSource_exactly_eight_fields:
  "(s :: WikiSource) =
     \<lparr>chunk_id = chunk_id s, document_id = document_id s,
      document_title = document_title s, source_path = source_path s,
      page_number = page_number s, section = section s,
      relevance_score = relevance_score s, excerpt = excerpt s\<rparr>
   \<and> ((s :: WikiSource) = s' \<longleftrightarrow>
        chunk_id s = chunk_id s' \<and> document_id s = document_id s'
        \<and> document_title s = document_title s' \<and> source_path s = source_path s'
        \<and> page_number s = page_number s' \<and> section s = section s'
        \<and> relevance_score s = relevance_score s' \<and> excerpt s = excerpt s')
   \<and> chunk_id \<lparr>chunk_id = c, document_id = d, document_title = t, source_path = p,
        page_number = n, section = l, relevance_score = r, excerpt = e\<rparr> = c
   \<and> excerpt \<lparr>chunk_id = c, document_id = d, document_title = t, source_path = p,
        page_number = n, section = l, relevance_score = r, excerpt = e\<rparr> = e"
proof -
  have a: "(s :: WikiSource) =
     \<lparr>chunk_id = chunk_id s, document_id = document_id s,
      document_title = document_title s, source_path = source_path s,
      page_number = page_number s, section = section s,
      relevance_score = relevance_score s, excerpt = excerpt s\<rparr>"
    by simp
  have b: "(s :: WikiSource) = s' \<longleftrightarrow>
        chunk_id s = chunk_id s' \<and> document_id s = document_id s'
        \<and> document_title s = document_title s' \<and> source_path s = source_path s'
        \<and> page_number s = page_number s' \<and> section s = section s'
        \<and> relevance_score s = relevance_score s' \<and> excerpt s = excerpt s'"
    by (cases s; cases s') auto
  from a b show ?thesis by simp
qed

subsection \<open>Output formats\<close>

lemma output_format_UNIV: "UNIV = {FormatMarkdown, FormatHtml, FormatJson, FormatText}"
proof -
  have "f \<in> {FormatMarkdown, FormatHtml, FormatJson, FormatText}" for f
    by (cases f) simp_all
  then show ?thesis by blast
qed




subsection \<open>Escaping in the HTML rendering\<close>

lemma scan_text: "CHR ''<'' \<notin> set xs \<Longrightarrow> scan_tags None (xs @ ys) = scan_tags None ys"
  by (induction xs) auto

lemma escape_html_no_lt: "CHR ''<'' \<notin> set (escape_html s)"
  by (induction s) (simp_all add: escape_html_def)

lemma closed_text: "CHR ''<'' \<notin> set x \<Longrightarrow> closed_markup T x"
  unfolding closed_markup_def
  by (rule exI [of _ "[]"]) (simp add: scan_text)

lemma closed_escape: "closed_markup T (escape_html s)"
  by (rule closed_text) (rule escape_html_no_lt)

lemma closed_Nil: "closed_markup T []"
  by (rule closed_text) simp

lemma closed_append:
  assumes "closed_markup T x" and "closed_markup T y"
  shows "closed_markup T (x @ y)"
proof -
  from assms(1) obtain tx where tx: "set tx \<subseteq> T" "\<And>ys. scan_tags None (x @ ys) = tx @ scan_tags None ys"
    unfolding closed_markup_def by blast
  from assms(2) obtain ty where ty: "set ty \<subseteq> T" "\<And>ys. scan_tags None (y @ ys) = ty @ scan_tags None ys"
    unfolding closed_markup_def by blast
  have "scan_tags None ((x @ y) @ ys) = (tx @ ty) @ scan_tags None ys" for ys
    by (simp add: tx(2) ty(2))
  moreover have "set (tx @ ty) \<subseteq> T" using tx(1) ty(1) by simp
  ultimately show ?thesis unfolding closed_markup_def by blast
qed

lemma closed_concat:
  assumes "\<And>x. x \<in> set xs \<Longrightarrow> closed_markup T (f x)"
  shows "closed_markup T (concat (map f xs))"
  using assms by (induction xs) (simp_all add: closed_Nil closed_append)

lemma closedI:
  assumes "set ts \<subseteq> T" and "\<And>ys. scan_tags None (x @ ys) = ts @ scan_tags None ys"
  shows "closed_markup T x"
  unfolding closed_markup_def using assms by blast

lemma closed_literals:
  "closed_markup (set renderer_tags) ''<li><cite>''"
  "closed_markup (set renderer_tags) ''</cite>''"
  "closed_markup (set renderer_tags) ''<p>''"
  "closed_markup (set renderer_tags) ''</p></li>''"
  "closed_markup (set renderer_tags) ''<ul>''"
  "closed_markup (set renderer_tags) ''</ul>''"
  "closed_markup (set renderer_tags) ''<section><h2>''"
  "closed_markup (set renderer_tags) ''</h2><p>''"
  "closed_markup (set renderer_tags) ''</p>''"
  "closed_markup (set renderer_tags) ''</section>''"
  "closed_markup (set renderer_tags) ''<article><h1>''"
  "closed_markup (set renderer_tags) ''</h1><p>''"
  "closed_markup (set renderer_tags) ''</article>''"
proof -
  show "closed_markup (set renderer_tags) ''<li><cite>''"
    by (rule closedI [of "[''<li>'', ''<cite>'']"]) (simp_all add: renderer_tags_def)
  show "closed_markup (set renderer_tags) ''</cite>''"
    by (rule closedI [of "[''</cite>'']"]) (simp_all add: renderer_tags_def)
  show "closed_markup (set renderer_tags) ''<p>''"
    by (rule closedI [of "[''<p>'']"]) (simp_all add: renderer_tags_def)
  show "closed_markup (set renderer_tags) ''</p></li>''"
    by (rule closedI [of "[''</p>'', ''</li>'']"]) (simp_all add: renderer_tags_def)
  show "closed_markup (set renderer_tags) ''<ul>''"
    by (rule closedI [of "[''<ul>'']"]) (simp_all add: renderer_tags_def)
  show "closed_markup (set renderer_tags) ''</ul>''"
    by (rule closedI [of "[''</ul>'']"]) (simp_all add: renderer_tags_def)
  show "closed_markup (set renderer_tags) ''<section><h2>''"
    by (rule closedI [of "[''<section>'', ''<h2>'']"]) (simp_all add: renderer_tags_def)
  show "closed_markup (set renderer_tags) ''</h2><p>''"
    by (rule closedI [of "[''</h2>'', ''<p>'']"]) (simp_all add: renderer_tags_def)
  show "closed_markup (set renderer_tags) ''</p>''"
    by (rule closedI [of "[''</p>'']"]) (simp_all add: renderer_tags_def)
  show "closed_markup (set renderer_tags) ''</section>''"
    by (rule closedI [of "[''</section>'']"]) (simp_all add: renderer_tags_def)
  show "closed_markup (set renderer_tags) ''<article><h1>''"
    by (rule closedI [of "[''<article>'', ''<h1>'']"]) (simp_all add: renderer_tags_def)
  show "closed_markup (set renderer_tags) ''</h1><p>''"
    by (rule closedI [of "[''</h1>'', ''<p>'']"]) (simp_all add: renderer_tags_def)
  show "closed_markup (set renderer_tags) ''</article>''"
    by (rule closedI [of "[''</article>'']"]) (simp_all add: renderer_tags_def)
qed

lemma closed_source: "closed_markup (set renderer_tags) (render_source_html s)"
  unfolding render_source_html_def
  by (intro closed_append closed_literals closed_escape)
     (simp add: closed_escape closed_Nil split: option.split)

lemma closed_sources: "closed_markup (set renderer_tags) (render_sources_html b srcs)"
proof (cases b)
  case True
  have "closed_markup (set renderer_tags) (''<ul>'' @ concat (map render_source_html srcs) @ ''</ul>'')"
    by (intro closed_append closed_literals closed_concat closed_source)
  with True show ?thesis by (simp only: render_sources_html_def if_True)
next
  case False
  then show ?thesis by (simp add: render_sources_html_def closed_Nil)
qed

lemma closed_section: "closed_markup (set renderer_tags) (render_section_html b sec)"
proof (induction sec)
  case (WikiSection h c srcs conf subs)
  have subs: "closed_markup (set renderer_tags) (concat (map (render_section_html b) subs))"
    by (rule closed_concat) (rule WikiSection.IH)
  show ?case
    unfolding render_section_html.simps
    by (intro closed_append closed_literals closed_escape closed_sources subs)
qed

lemma closed_render_html: "closed_markup (set renderer_tags) (render_html b e)"
  unfolding render_html_def
  by (intro closed_append closed_literals closed_escape closed_sources closed_concat closed_section)

lemma closed_tags_of: "closed_markup T x \<Longrightarrow> set (tags_of x) \<subseteq> T"
proof -
  assume "closed_markup T x"
  then obtain ts where "set ts \<subseteq> T" "\<And>ys. scan_tags None (x @ ys) = ts @ scan_tags None ys"
    unfolding closed_markup_def by blast
  from this(1) this(2) [of "[]"] show ?thesis by (simp add: tags_of_def)
qed

lemma escape_html_no_markup:
  "CHR ''<'' \<notin> set (escape_html s)" "CHR ''>'' \<notin> set (escape_html s)"
  "CHR 0x22 \<notin> set (escape_html s)" "CHR 0x27 \<notin> set (escape_html s)"
  by (induction s) (simp_all add: escape_html_def)

text \<open>
  C2. For every entry, with or without the citation lists, the markup that the preview
  inserts into the document when the response carries the HTML rendering of the entry has
  no tag but the renderer's own: no string of the entry (title, summary, heading, content,
  document title, section label, excerpt) contributes a tag, whatever it contains, because
  an escaped string has none of the characters \<open><\<close>, \<open>>\<close>, the double and the single quote.
\<close>

theorem html_rendering_escapes_source_text:
  "set (tags_of (preview_innerHTML
          \<lparr>entry = e, content = render_html include_srcs e, format = ''html''\<rparr>))
     \<subseteq> set renderer_tags
   \<and> CHR ''<'' \<notin> set (escape_html s) \<and> CHR ''>'' \<notin> set (escape_html s)
   \<and> CHR 0x22 \<notin> set (escape_html s) \<and> CHR 0x27 \<notin> set (escape_html s)"
  using closed_tags_of [OF closed_render_html [of include_srcs e]] escape_html_no_markup [of s]
  by (simp add: preview_innerHTML_def)

theorem html_rendering_escapes_source_text_witness:
  "tags_of (title script_entry) = [''<script>'']
   \<and> ''<script>'' \<notin> set renderer_tags
   \<and> set (tags_of (preview_innerHTML
          \<lparr>entry = script_entry, content = render_html True script_entry, format = ''html''\<rparr>))
     \<subseteq> set renderer_tags"
proof -
  have a: "tags_of (title script_entry) = [''<script>'']"
    by (simp add: script_entry_def tags_of_def)
  have b: "''<script>'' \<notin> set renderer_tags"
    by (simp add: renderer_tags_def)
  from a b html_rendering_escapes_source_text [of script_entry True] show ?thesis by blast
qed

end
